theory Spec2Isabelle
  imports Main "HOL-Library.Signed_Division"
begin

section \<open>The MQTT layer of ccu-jack (package mqtt)\<close>

text \<open>
  This theory embeds \<^verbatim>\<open>src/mqtt/mqtt.go\<close>: the wire codec (\<^verbatim>\<open>wireToPV\<close>,
  \<^verbatim>\<open>pvToWire\<close>), the publishing methods of \<^verbatim>\<open>Server\<close> and the
  \<^verbatim>\<open>EventReceiver\<close> that publishes value changes and forwards every notification.

  Go strings and byte slices are byte sequences: they are \<^typ>\<open>string\<close> here.
  A Go \<^verbatim>\<open>error\<close> result is an \<^typ>\<open>'a option\<close> (\<^verbatim>\<open>nil\<close> is \<open>None\<close>), a result pair
  \<^verbatim>\<open>(x, err)\<close> is a sum with the error on the left. The two libraries the file calls,
  go-mqtt and encoding/json, are not part of the repository. go-mqtt is a record of
  functions that every theorem quantifies over; encoding/json is a record of functions
  too, and \<open>go_json\<close> below is a model of the standard library's behaviour for it.
\<close>

subsection \<open>Values, errors, process values\<close>

text \<open>
  A JSON number decoded into an \<^verbatim>\<open>interface{}\<close> is a \<^verbatim>\<open>float64\<close>. It is kept as the
  decimal number \<open>(-1)^neg * m * 10^e\<close> with \<open>0 \<le> m\<close> free of trailing zeros, which is the
  shortest decimal expansion that encoding/json prints for the float; the binary rounding
  of literals with more than 15 significant digits is outside this model.
\<close>

datatype decimal = Decimal (neg: bool) (mantissa: int) (exponent: int)

text \<open>
  The dynamic values that travel in \<^verbatim>\<open>interface{}\<close>: what encoding/json produces
  (\<^verbatim>\<open>nil\<close>, \<^verbatim>\<open>bool\<close>, \<^verbatim>\<open>float64\<close>, \<^verbatim>\<open>string\<close>, \<^verbatim>\<open>[]interface{}\<close>,
  \<^verbatim>\<open>map[string]interface{}\<close>), and \<open>VUnsupported\<close> for a Go value that
  \<^verbatim>\<open>json.Marshal\<close> rejects (a channel, a function, a NaN or an infinite float).
  The numeric kinds of Go are not told apart.
\<close>

datatype gvalue =
    VNil
  | VBool bool
  | VNumber decimal
  | VString string
  | VSlice "gvalue list"
  | VMap "(string \<times> gvalue) list"
  | VUnsupported string

datatype error =
    JsonError string            \<comment> \<open>an error of encoding/json\<close>
  | MqttError string            \<comment> \<open>an error of go-mqtt\<close>
  | IoError string              \<comment> \<open>an error of an \<^verbatim>\<open>io.Reader\<close> other than \<^verbatim>\<open>io.EOF\<close>\<close>
  | errUnexpectetContent        \<comment> \<open>\<^verbatim>\<open>errors.New("Unexpectet content")\<close>\<close>
  | ReadAllFailed error         \<comment> \<open>\<^verbatim>\<open>"ReadAll failed: %v"\<close>\<close>
  | ConversionFailed error      \<comment> \<open>\<^verbatim>\<open>"Conversion of PV to JSON failed: %v"\<close>\<close>
  | InvalidTopic error          \<comment> \<open>\<^verbatim>\<open>"Invalid topic: %v"\<close>\<close>
  | InvalidQoS error            \<comment> \<open>\<^verbatim>\<open>"Invalid QoS: %v"\<close>\<close>
  | PublishFailed error         \<comment> \<open>\<^verbatim>\<open>"Publish failed: %v"\<close>\<close>
  | UnexpectedEvent string      \<comment> \<open>\<^verbatim>\<open>"Unexpected event from a device: %s"\<close>\<close>

text \<open>
  \<^verbatim>\<open>int64\<close> values are integers in \<open>[-2^63, 2^63)\<close>; \<open>wrap64\<close> is the two's
  complement wrap-around of Go's \<^verbatim>\<open>int64\<close> arithmetic. Go's \<^verbatim>\<open>/\<close> truncates towards
  zero: it is \<open>sdiv\<close>.
\<close>

definition wrap64 :: "int \<Rightarrow> int" where
  "wrap64 x = (x + 2 ^ 63) mod 2 ^ 64 - 2 ^ 63"

definition in_int64 :: "int \<Rightarrow> bool" where
  "in_int64 x = (- (2 ^ 63) \<le> x \<and> x < 2 ^ 63)"

text \<open>
  A \<^verbatim>\<open>time.Time\<close> is the number of nanoseconds since the Unix epoch (its monotonic
  reading and its location are not modelled). \<^verbatim>\<open>UnixNano\<close> computes in \<^verbatim>\<open>int64\<close>.
\<close>

definition Time_UnixNano :: "int \<Rightarrow> int" where
  "Time_UnixNano t = wrap64 t"

definition time_Unix :: "int \<Rightarrow> int \<Rightarrow> int" where
  "time_Unix sec nsec = sec * 1000000000 + nsec"

text \<open>
  Modelled from the spec: \<^verbatim>\<open>veap.PV\<close>, \<^verbatim>\<open>veap.State\<close> and \<^verbatim>\<open>veap.StateGood\<close> are
  declared in go-veap. The spec has a process value with timestamp, value and an integer
  status code, and \<open>0\<close> for Good.
\<close>

record PV =
  Time :: int
  Value :: gvalue
  State :: int

definition StateGood :: int where
  "StateGood = 0"

record wirePV =
  wTime :: int       \<comment> \<open>\<^verbatim>\<open>Time int64 `json:"ts"`\<close>\<close>
  wValue :: gvalue   \<comment> \<open>\<^verbatim>\<open>Value interface{} `json:"v"`\<close>\<close>
  wState :: int      \<comment> \<open>\<^verbatim>\<open>State veap.State `json:"s"`\<close>\<close>

text \<open>The zero value \<^verbatim>\<open>var w wirePV\<close>.\<close>

definition wirePV_zero :: wirePV where
  "wirePV_zero = \<lparr>wTime = 0, wValue = VNil, wState = 0\<rparr>"

subsection \<open>The libraries as parameters\<close>

text \<open>
  encoding/json, as \<^verbatim>\<open>mqtt.go\<close> uses it. \<open>Decoder_Decode\<close> stands for
  \<^verbatim>\<open>dec := json.NewDecoder(bytes.NewReader(payload)); dec.DisallowUnknownFields();
  err := dec.Decode(&w)\<close> on a zero \<^verbatim>\<open>w\<close>: it gives the error, \<^verbatim>\<open>w\<close> as the decoder left
  it, and the bytes that \<^verbatim>\<open>dec.Buffered()\<close> would then read.
\<close>

record json_library =
  Marshal :: "wirePV \<Rightarrow> error + string"
  Decoder_Decode :: "string \<Rightarrow> error option \<times> wirePV \<times> string"
  Unmarshal :: "string \<Rightarrow> error + gvalue"

text \<open>
  go-mqtt: the setters of a \<^verbatim>\<open>message.PublishMessage\<close> that can fail, and
  \<^verbatim>\<open>service.Server.Publish\<close> as a transition of the broker's state \<open>'b\<close>.
\<close>

record PublishMessage =
  topic :: string
  qos :: nat
  retain :: bool
  payload :: string

record 'b mqtt_library =
  SetTopic :: "string \<Rightarrow> error option"
  SetQoS :: "nat \<Rightarrow> error option"
  service_Publish :: "PublishMessage \<Rightarrow> 'b \<Rightarrow> error option \<times> 'b"

definition QosAtLeastOnce :: nat where
  "QosAtLeastOnce = 1"

definition QosExactlyOnce :: nat where
  "QosExactlyOnce = 2"

text \<open>
  Modelled from the spec: the constant \<^verbatim>\<open>deviceStatusTopic\<close> is declared in a file of
  the package that is not under src/. The spec and the README give the topic
  \<^verbatim>\<open>device/status/{device}/{channel}/{parameter}\<close>.
\<close>

definition deviceStatusTopic :: string where
  "deviceStatusTopic = ''device/status''"

subsection \<open>The world the methods act on\<close>

datatype log_entry =
    Tracef string string   \<comment> \<open>\<^verbatim>\<open>log.Tracef("Publishing %s: %s", topic, payload)\<close>\<close>
  | Errorf error           \<comment> \<open>\<^verbatim>\<open>log.Errorf("Publish of event failed: %v", err)\<close>\<close>

text \<open>
  The state outside the Go values: the broker behind \<^verbatim>\<open>b.server\<close>, the lines given to
  the package logger, and the clock. \<^verbatim>\<open>time.Now()\<close> reads \<open>clock\<close> at \<open>ticks\<close> and
  advances \<open>ticks\<close>, so successive calls may see any sequence of instants.
\<close>

record 'b world =
  broker :: 'b
  logged :: "log_entry list"
  clock :: "nat \<Rightarrow> int"
  ticks :: nat

definition time_Now :: "('b, 'z) world_scheme \<Rightarrow> int \<times> ('b, 'z) world_scheme" where
  "time_Now w = (clock w (ticks w), w\<lparr>ticks := Suc (ticks w)\<rparr>)"

definition log_write :: "log_entry \<Rightarrow> ('b, 'z) world_scheme \<Rightarrow> ('b, 'z) world_scheme" where
  "log_write l w = w\<lparr>logged := logged w @ [l]\<rparr>"

subsection \<open>The wire codec\<close>

text \<open>
  \<^verbatim>\<open>strings.TrimSpace\<close> removes the leading and the trailing white space of Unicode
  (\<^verbatim>\<open>unicode.IsSpace\<close>). On bytes these are the UTF-8 encodings of U+0009 to U+000D,
  U+0020, U+0085, U+00A0, U+1680, U+2000 to U+200A, U+2028, U+2029, U+202F, U+205F and
  U+3000; a byte sequence that is not one of them decodes to another rune or to the
  replacement rune, which is no space.
\<close>

definition unicode_spaces :: "string list" where
  "unicode_spaces =
     [[CHR 0x09], [CHR 0x0A], [CHR 0x0B], [CHR 0x0C], [CHR 0x0D], [CHR 0x20],
      [CHR 0xC2, CHR 0x85], [CHR 0xC2, CHR 0xA0], [CHR 0xE1, CHR 0x9A, CHR 0x80],
      [CHR 0xE2, CHR 0x80, CHR 0x80], [CHR 0xE2, CHR 0x80, CHR 0x81],
      [CHR 0xE2, CHR 0x80, CHR 0x82], [CHR 0xE2, CHR 0x80, CHR 0x83],
      [CHR 0xE2, CHR 0x80, CHR 0x84], [CHR 0xE2, CHR 0x80, CHR 0x85],
      [CHR 0xE2, CHR 0x80, CHR 0x86], [CHR 0xE2, CHR 0x80, CHR 0x87],
      [CHR 0xE2, CHR 0x80, CHR 0x88], [CHR 0xE2, CHR 0x80, CHR 0x89],
      [CHR 0xE2, CHR 0x80, CHR 0x8A], [CHR 0xE2, CHR 0x80, CHR 0xA8],
      [CHR 0xE2, CHR 0x80, CHR 0xA9], [CHR 0xE2, CHR 0x80, CHR 0xAF],
      [CHR 0xE2, CHR 0x81, CHR 0x9F], [CHR 0xE3, CHR 0x80, CHR 0x80]]"

function trim_prefix :: "string list \<Rightarrow> string \<Rightarrow> string" where
  "trim_prefix encs s =
     (case find (\<lambda>e. e \<noteq> [] \<and> take (length e) s = e) encs of
        None \<Rightarrow> s
      | Some e \<Rightarrow> trim_prefix encs (drop (length e) s))"
  by pat_completeness auto
termination
proof (relation "measure (\<lambda>(encs, s). length s)")
  show "wf (measure (\<lambda>(encs, s). length s))"
    by simp
next
  fix encs :: "string list" and s e :: string
  assume "find (\<lambda>e. e \<noteq> [] \<and> take (length e) s = e) encs = Some e"
  then have e: "e \<noteq> []" "take (length e) s = e"
    by (auto simp: find_Some_iff)
  from e(2) have "length (take (length e) s) = length e"
    by simp
  then have "length e \<le> length s"
    by simp
  with e(1) show "((encs, drop (length e) s), (encs, s)) \<in> measure (\<lambda>(encs, s). length s)"
    by (cases e) auto
qed

definition strings_TrimSpace :: "string \<Rightarrow> string" where
  "strings_TrimSpace s =
     rev (trim_prefix (map rev unicode_spaces) (rev (trim_prefix unicode_spaces s)))"

text \<open>
  \<^verbatim>\<open>ioutil.ReadAll(dec.Buffered())\<close>. \<^verbatim>\<open>Buffered\<close> returns a \<^verbatim>\<open>bytes.Reader\<close> over
  the bytes left in the decoder's buffer. Its \<^verbatim>\<open>Read\<close> copies up to the length asked
  for and reports \<^verbatim>\<open>io.EOF\<close> once nothing is left; \<^verbatim>\<open>ReadAll\<close> reads until an error
  and takes \<^verbatim>\<open>io.EOF\<close> for success.
\<close>

definition io_EOF :: error where
  "io_EOF = IoError ''EOF''"

definition bytes_Reader_Read :: "string \<Rightarrow> nat \<Rightarrow> (string \<times> error option) \<times> string" where
  "bytes_Reader_Read rest k =
     (if rest = [] then (([], Some io_EOF), rest)
      else ((take k rest, None), drop k rest))"

function ReadAll_loop :: "string \<Rightarrow> string \<Rightarrow> error + string" where
  "ReadAll_loop b rest =
     (case bytes_Reader_Read rest 512 of
        ((d, None), rest') \<Rightarrow> ReadAll_loop (b @ d) rest'
      | ((d, Some err), rest') \<Rightarrow> if err = io_EOF then Inr (b @ d) else Inl err)"
  by pat_completeness auto
termination
  by (relation "measure (\<lambda>(b, rest). length rest)")
     (auto simp: bytes_Reader_Read_def split: if_splits)

definition ioutil_ReadAll :: "string \<Rightarrow> error + string" where
  "ioutil_ReadAll buffered = ReadAll_loop [] buffered"

text \<open>
  \<^verbatim>\<open>wireToPV\<close>. \<open>now\<close> is what \<^verbatim>\<open>time.Now()\<close> returns when the function calls it.
  The local \<^verbatim>\<open>err\<close> of the source is \<open>err\<close>, then \<open>err'\<close> after the check of the
  buffered bytes.
\<close>

definition wireToPV :: "json_library \<Rightarrow> int \<Rightarrow> string \<Rightarrow> error + PV" where
  "wireToPV J now pl =
     (case Decoder_Decode J pl of
        (err, w, buffered) \<Rightarrow>
          (case (if err = None then
                   (case ioutil_ReadAll buffered of
                      Inl err2 \<Rightarrow> Inl (ReadAllFailed err2)
                    | Inr c \<Rightarrow>
                        (let cs = strings_TrimSpace c
                         in if length cs \<noteq> 0 then Inr (Some errUnexpectetContent)
                            else Inr err))
                 else Inr err) of
             Inl e \<Rightarrow> Inl e
           | Inr err' \<Rightarrow>
               (let w' = (if err' \<noteq> None then
                            (case Unmarshal J pl of
                               Inr v \<Rightarrow> wirePV_zero\<lparr>wValue := v\<rparr>
                             | Inl err3 \<Rightarrow> wirePV_zero\<lparr>wValue := VString pl\<rparr>)
                          else w);
                    ts = (if wTime w' = 0 then now
                          else time_Unix 0 (wrap64 (wTime w' * 1000000)))
                in Inr \<lparr>Time = ts, Value = wValue w', State = wState w'\<rparr>)))"

text \<open>\<^verbatim>\<open>pvToWire\<close>.\<close>

definition pvToWire :: "json_library \<Rightarrow> PV \<Rightarrow> error + string" where
  "pvToWire J pv =
     (let w = \<lparr>wTime = Time_UnixNano (Time pv) sdiv 1000000,
               wValue = Value pv,
               wState = State pv\<rparr>
      in case Marshal J w of
           Inl err \<Rightarrow> Inl (ConversionFailed err)
         | Inr pl \<Rightarrow> Inr pl)"

subsection \<open>Server: publishing\<close>

text \<open>
  Of the \<^verbatim>\<open>Server\<close> struct the listener configuration and the broker handle. The
  error channel and the wait group belong to \<^verbatim>\<open>Start\<close> and \<^verbatim>\<open>Stop\<close>, which run
  goroutines and are not embedded.
\<close>

record 'b Server =
  Addr :: string
  AddrTLS :: string
  CertFile :: string
  KeyFile :: string
  Authenticator :: string
  server :: "'b mqtt_library"

definition Server_Publish ::
  "'b Server \<Rightarrow> string \<Rightarrow> string \<Rightarrow> nat \<Rightarrow> bool \<Rightarrow> ('b, 'z) world_scheme
     \<Rightarrow> error option \<times> ('b, 'z) world_scheme" where
  "Server_Publish b tp pl q rt w =
     (let w1 = log_write (Tracef tp pl) w
      in case SetTopic (server b) tp of
           Some err \<Rightarrow> (Some (InvalidTopic err), w1)
         | None \<Rightarrow>
             (case SetQoS (server b) q of
                Some err \<Rightarrow> (Some (InvalidQoS err), w1)
              | None \<Rightarrow>
                  (let pm = \<lparr>topic = tp, qos = q, retain = rt, payload = pl\<rparr>
                   in case service_Publish (server b) pm (broker w1) of
                        (Some err, br) \<Rightarrow> (Some (PublishFailed err), w1\<lparr>broker := br\<rparr>)
                      | (None, br) \<Rightarrow> (None, w1\<lparr>broker := br\<rparr>))))"

definition Server_PublishPV ::
  "json_library \<Rightarrow> 'b Server \<Rightarrow> string \<Rightarrow> PV \<Rightarrow> nat \<Rightarrow> bool \<Rightarrow> ('b, 'z) world_scheme
     \<Rightarrow> error option \<times> ('b, 'z) world_scheme" where
  "Server_PublishPV J b tp pv q rt w =
     (case pvToWire J pv of
        Inl err \<Rightarrow> (Some err, w)
      | Inr pl \<Rightarrow>
          (case Server_Publish b tp pl q rt w of
             (Some err, w') \<Rightarrow> (Some err, w')
           | (None, w') \<Rightarrow> (None, w')))"

subsection \<open>EventReceiver\<close>

text \<open>
  \<^verbatim>\<open>strings.IndexRune(s, c)\<close> for an ASCII rune \<open>c\<close> is the index of the first byte
  \<open>c\<close>; \<open>None\<close> is Go's \<open>-1\<close>.
\<close>

primrec strings_IndexRune :: "string \<Rightarrow> char \<Rightarrow> nat option" where
  "strings_IndexRune [] c = None"
| "strings_IndexRune (x # xs) c =
     (if x = c then Some 0 else map_option Suc (strings_IndexRune xs c))"

definition strings_HasPrefix :: "string \<Rightarrow> string \<Rightarrow> bool" where
  "strings_HasPrefix s p = (length p \<le> length s \<and> take (length p) s = p)"

text \<open>
  \<^verbatim>\<open>itf.LogicLayer\<close>, the interface of a handler, is its method table over the world
  \<open>'w\<close>. \<open>'d\<close> is \<^verbatim>\<open>*itf.DeviceDescription\<close>, which the receiver only passes on.
\<close>

record ('d, 'w) LogicLayer =
  Event :: "string \<Rightarrow> string \<Rightarrow> string \<Rightarrow> gvalue \<Rightarrow> 'w \<Rightarrow> error option \<times> 'w"
  NewDevices :: "string \<Rightarrow> 'd list \<Rightarrow> 'w \<Rightarrow> error option \<times> 'w"
  DeleteDevices :: "string \<Rightarrow> string list \<Rightarrow> 'w \<Rightarrow> error option \<times> 'w"
  UpdateDevice :: "string \<Rightarrow> string \<Rightarrow> int \<Rightarrow> 'w \<Rightarrow> error option \<times> 'w"
  ReplaceDevice :: "string \<Rightarrow> string \<Rightarrow> string \<Rightarrow> 'w \<Rightarrow> error option \<times> 'w"
  ReaddedDevice :: "string \<Rightarrow> string list \<Rightarrow> 'w \<Rightarrow> error option \<times> 'w"

record ('b, 'd, 'w) EventReceiver =
  Server :: "'b Server"
  Next :: "('d, 'w) LogicLayer"

definition publishEvent ::
  "json_library \<Rightarrow> ('b, 'd, 'w) EventReceiver \<Rightarrow> string \<Rightarrow> string \<Rightarrow> string \<Rightarrow> gvalue
     \<Rightarrow> ('b, 'z) world_scheme \<Rightarrow> error option \<times> ('b, 'z) world_scheme" where
  "publishEvent J r interfaceID address valueKey val w =
     (case strings_IndexRune address (CHR '':'') of
        None \<Rightarrow> (Some (UnexpectedEvent address), w)
      | Some p \<Rightarrow>
          (let dev = take p address;
               ch = drop (p + 1) address;
               tp = deviceStatusTopic @ ''/'' @ dev @ ''/'' @ ch @ ''/'' @ valueKey;
               (now, w1) = time_Now w;
               pv = \<lparr>Time = now, Value = val, State = StateGood\<rparr>;
               (q, rt) =
                 (if valueKey \<noteq> ''INSTALL_TEST'' \<and> \<not> strings_HasPrefix valueKey ''PRESS_''
                  then (QosAtLeastOnce, True)
                  else (QosExactlyOnce, False))
           in case Server_PublishPV J (Server r) tp pv q rt w1 of
                (Some err, w2) \<Rightarrow> (Some err, w2)
              | (None, w2) \<Rightarrow> (None, w2)))"

definition EventReceiver_Event ::
  "json_library \<Rightarrow> ('b, 'd, ('b, 'z) world_scheme) EventReceiver
     \<Rightarrow> string \<Rightarrow> string \<Rightarrow> string \<Rightarrow> gvalue
     \<Rightarrow> ('b, 'z) world_scheme \<Rightarrow> error option \<times> ('b, 'z) world_scheme" where
  "EventReceiver_Event J r interfaceID address valueKey val w =
     (let w1 = (case publishEvent J r interfaceID address valueKey val w of
                  (Some err, w') \<Rightarrow> log_write (Errorf err) w'
                | (None, w') \<Rightarrow> w')
      in Event (Next r) interfaceID address valueKey val w1)"

text \<open>
  The world in which \<^verbatim>\<open>Event\<close> calls the next handler: the one \<^verbatim>\<open>publishEvent\<close>
  left, with the error logged if there was one.
\<close>

definition after_publish ::
  "json_library \<Rightarrow> ('b, 'd, ('b, 'z) world_scheme) EventReceiver \<Rightarrow> string \<Rightarrow> string \<Rightarrow> string
     \<Rightarrow> gvalue \<Rightarrow> ('b, 'z) world_scheme \<Rightarrow> ('b, 'z) world_scheme" where
  "after_publish J r iface address valueKey val w =
     (case publishEvent J r iface address valueKey val w of
        (Some err, w') \<Rightarrow> log_write (Errorf err) w'
      | (None, w') \<Rightarrow> w')"

definition EventReceiver_NewDevices ::
  "('b, 'd, 'w) EventReceiver \<Rightarrow> string \<Rightarrow> 'd list \<Rightarrow> 'w \<Rightarrow> error option \<times> 'w" where
  "EventReceiver_NewDevices r interfaceID devDescriptions w =
     NewDevices (Next r) interfaceID devDescriptions w"

definition EventReceiver_DeleteDevices ::
  "('b, 'd, 'w) EventReceiver \<Rightarrow> string \<Rightarrow> string list \<Rightarrow> 'w \<Rightarrow> error option \<times> 'w" where
  "EventReceiver_DeleteDevices r interfaceID addresses w =
     DeleteDevices (Next r) interfaceID addresses w"

definition EventReceiver_UpdateDevice ::
  "('b, 'd, 'w) EventReceiver \<Rightarrow> string \<Rightarrow> string \<Rightarrow> int \<Rightarrow> 'w \<Rightarrow> error option \<times> 'w" where
  "EventReceiver_UpdateDevice r interfaceID address hint w =
     UpdateDevice (Next r) interfaceID address hint w"

definition EventReceiver_ReplaceDevice ::
  "('b, 'd, 'w) EventReceiver \<Rightarrow> string \<Rightarrow> string \<Rightarrow> string \<Rightarrow> 'w \<Rightarrow> error option \<times> 'w" where
  "EventReceiver_ReplaceDevice r interfaceID oldDeviceAddress newDeviceAddress w =
     ReplaceDevice (Next r) interfaceID oldDeviceAddress newDeviceAddress w"

definition EventReceiver_ReaddedDevice ::
  "('b, 'd, 'w) EventReceiver \<Rightarrow> string \<Rightarrow> string list \<Rightarrow> 'w \<Rightarrow> error option \<times> 'w" where
  "EventReceiver_ReaddedDevice r interfaceID deletedAddresses w =
     ReaddedDevice (Next r) interfaceID deletedAddresses w"

subsection \<open>Chains of handlers\<close>

text \<open>
  \<^verbatim>\<open>*EventReceiver\<close> implements \<^verbatim>\<open>itf.LogicLayer\<close>: its method table.
\<close>

definition EventReceiver_LogicLayer ::
  "json_library \<Rightarrow> ('b, 'd, ('b, 'z) world_scheme) EventReceiver
     \<Rightarrow> ('d, ('b, 'z) world_scheme) LogicLayer" where
  "EventReceiver_LogicLayer J r =
     \<lparr>Event = EventReceiver_Event J r,
      NewDevices = EventReceiver_NewDevices r,
      DeleteDevices = EventReceiver_DeleteDevices r,
      UpdateDevice = EventReceiver_UpdateDevice r,
      ReplaceDevice = EventReceiver_ReplaceDevice r,
      ReaddedDevice = EventReceiver_ReaddedDevice r\<rparr>"

text \<open>
  A notification is one call of a method of the interface with its arguments; \<open>deliver\<close>
  makes the call, and \<open>feed\<close> makes the calls of a sequence one after the other, as the
  caller of the first handler does, collecting what they return.
\<close>

datatype 'd notification =
    N_Event string string string gvalue
  | N_NewDevices string "'d list"
  | N_DeleteDevices string "string list"
  | N_UpdateDevice string string int
  | N_ReplaceDevice string string string
  | N_ReaddedDevice string "string list"

fun deliver :: "('d, 'w) LogicLayer \<Rightarrow> 'd notification \<Rightarrow> 'w \<Rightarrow> error option \<times> 'w" where
  "deliver h (N_Event i a k v) w = Event h i a k v w"
| "deliver h (N_NewDevices i ds) w = NewDevices h i ds w"
| "deliver h (N_DeleteDevices i addrs) w = DeleteDevices h i addrs w"
| "deliver h (N_UpdateDevice i a hint) w = UpdateDevice h i a hint w"
| "deliver h (N_ReplaceDevice i old new) w = ReplaceDevice h i old new w"
| "deliver h (N_ReaddedDevice i addrs) w = ReaddedDevice h i addrs w"

fun feed :: "('d, 'w) LogicLayer \<Rightarrow> 'd notification list \<Rightarrow> 'w \<Rightarrow> error option list \<times> 'w" where
  "feed h [] w = ([], w)"
| "feed h (n # ns) w =
     (case deliver h n w of
        (e, w') \<Rightarrow> (case feed h ns w' of (es, w'') \<Rightarrow> (e # es, w'')))"

text \<open>
  What a handler observes is the calls made on it. To state it, the world is extended by
  a ghost field \<open>seen\<close>, the calls that arrived at each position of a chain, and
  \<open>probe j h\<close> is the handler \<open>h\<close> at position \<open>j\<close>: it records the call and makes it
  on \<open>h\<close>. Nothing of the source reads or writes \<open>seen\<close>.
\<close>

record ('b, 'd) traced_world = "'b world" +
  seen :: "nat \<Rightarrow> 'd notification list"

definition record_call ::
  "nat \<Rightarrow> 'd notification \<Rightarrow> ('b, 'd, 'z) traced_world_scheme \<Rightarrow> ('b, 'd, 'z) traced_world_scheme" where
  "record_call j n w = w\<lparr>seen := (seen w)(j := seen w j @ [n])\<rparr>"

definition probe ::
  "nat \<Rightarrow> ('d, ('b, 'd, 'z) traced_world_scheme) LogicLayer
     \<Rightarrow> ('d, ('b, 'd, 'z) traced_world_scheme) LogicLayer" where
  "probe j h =
     \<lparr>Event = (\<lambda>i a k v w. Event h i a k v (record_call j (N_Event i a k v) w)),
      NewDevices = (\<lambda>i ds w. NewDevices h i ds (record_call j (N_NewDevices i ds) w)),
      DeleteDevices = (\<lambda>i addrs w. DeleteDevices h i addrs (record_call j (N_DeleteDevices i addrs) w)),
      UpdateDevice = (\<lambda>i a hint w. UpdateDevice h i a hint (record_call j (N_UpdateDevice i a hint) w)),
      ReplaceDevice = (\<lambda>i old new w. ReplaceDevice h i old new (record_call j (N_ReplaceDevice i old new) w)),
      ReaddedDevice = (\<lambda>i addrs w. ReaddedDevice h i addrs (record_call j (N_ReaddedDevice i addrs) w))\<rparr>"

text \<open>
  A chain: one \<^verbatim>\<open>EventReceiver\<close> per server of the list, each with the rest of the
  chain as its \<^verbatim>\<open>Next\<close>, and the handler \<open>final\<close> at the end. The receivers stand at
  the positions \<open>j, j + 1, ...\<close> and \<open>final\<close> after them.
\<close>

fun chain ::
  "json_library \<Rightarrow> nat \<Rightarrow> 'b Server list \<Rightarrow> ('d, ('b, 'd, 'z) traced_world_scheme) LogicLayer
     \<Rightarrow> ('d, ('b, 'd, 'z) traced_world_scheme) LogicLayer" where
  "chain J j [] final = probe j final"
| "chain J j (srv # rest) final =
     probe j (EventReceiver_LogicLayer J \<lparr>Server = srv, Next = chain J (Suc j) rest final\<rparr>)"

section \<open>A model of encoding/json\<close>

definition byte :: "char \<Rightarrow> int" where
  "byte c = of_char c"

definition digit_char :: "int \<Rightarrow> char" where
  "digit_char d = ''0123456789abcdef'' ! nat d"

function show_nat :: "int \<Rightarrow> string" where
  "show_nat n = (if n < 10 then [digit_char n] else show_nat (n div 10) @ [digit_char (n mod 10)])"
  by pat_completeness auto
termination
  by (relation "measure nat") auto

definition strconv_FormatInt :: "int \<Rightarrow> string" where
  "strconv_FormatInt i = (if i < 0 then CHR ''-'' # show_nat (- i) else show_nat i)"

definition format_float :: "decimal \<Rightarrow> string" where
  "format_float d =
     (let ds = show_nat (mantissa d);
          n = length ds;
          dp = int n + exponent d;
          body =
            (if mantissa d = 0 then ''0''
             else if dp \<le> - 6 \<or> 22 \<le> dp then
               hd ds # (if 1 < n then CHR ''.'' # tl ds else [])
                 @ ''e'' @ (if dp - 1 < 0 then ''-'' else ''+'') @ show_nat \<bar>dp - 1\<bar>
             else if dp \<le> 0 then ''0.'' @ replicate (nat (- dp)) CHR ''0'' @ ds
             else if dp < int n then take (nat dp) ds @ CHR ''.'' # drop (nat dp) ds
             else ds @ replicate (nat (dp - int n)) CHR ''0'')
      in if neg d then CHR ''-'' # body else body)"

text \<open>UTF-8: the length of the valid encoding at the head of the bytes, 0 if there is none.\<close>

definition in_range :: "int \<Rightarrow> int \<Rightarrow> string \<Rightarrow> nat \<Rightarrow> bool" where
  "in_range lo hi s i = (i < length s \<and> lo \<le> byte (s ! i) \<and> byte (s ! i) \<le> hi)"

definition utf8_len :: "string \<Rightarrow> nat" where
  "utf8_len s =
     (if in_range 0 127 s 0 then 1
      else if in_range 194 223 s 0 \<and> in_range 128 191 s 1 then 2
      else if in_range 224 224 s 0 \<and> in_range 160 191 s 1 \<and> in_range 128 191 s 2 then 3
      else if (in_range 225 236 s 0 \<or> in_range 238 239 s 0)
              \<and> in_range 128 191 s 1 \<and> in_range 128 191 s 2 then 3
      else if in_range 237 237 s 0 \<and> in_range 128 159 s 1 \<and> in_range 128 191 s 2 then 3
      else if in_range 240 240 s 0 \<and> in_range 144 191 s 1 \<and> in_range 128 191 s 2
              \<and> in_range 128 191 s 3 then 4
      else if in_range 241 243 s 0 \<and> in_range 128 191 s 1 \<and> in_range 128 191 s 2
              \<and> in_range 128 191 s 3 then 4
      else if in_range 244 244 s 0 \<and> in_range 128 143 s 1 \<and> in_range 128 191 s 2
              \<and> in_range 128 191 s 3 then 4
      else 0)"

definition escape_byte :: "char \<Rightarrow> string" where
  \<open>escape_byte c =
     (if c = CHR 0x5C \<or> c = CHR 0x22 then [CHR 0x5C, c]
      else if c = CHR 0x0A then [CHR 0x5C, CHR ''n'']
      else if c = CHR 0x0D then [CHR 0x5C, CHR ''r'']
      else if c = CHR 0x09 then [CHR 0x5C, CHR ''t'']
      else if byte c < 32 \<or> c = CHR ''<'' \<or> c = CHR ''>'' \<or> c = CHR ''&'' then
        [CHR 0x5C, CHR ''u'', CHR ''0'', CHR ''0'', digit_char (byte c div 16), digit_char (byte c mod 16)]
      else [c])\<close>

fun quote_bytes :: "nat \<Rightarrow> string \<Rightarrow> string" where
  "quote_bytes k [] = []"
| "quote_bytes (Suc k) (c # cs) = c # quote_bytes k cs"
| "quote_bytes 0 (c # cs) =
     (if byte c < 128 then escape_byte c @ quote_bytes 0 cs
      else if utf8_len (c # cs) = 0 then [CHR 0x5C, CHR ''u'', CHR ''f'', CHR ''f'', CHR ''f'', CHR ''d''] @ quote_bytes 0 cs
      else if take 3 (c # cs) = [CHR 0xE2, CHR 0x80, CHR 0xA8] then
        [CHR 0x5C, CHR ''u'', CHR ''2'', CHR ''0'', CHR ''2'', CHR ''8''] @ quote_bytes 0 (drop 2 cs)
      else if take 3 (c # cs) = [CHR 0xE2, CHR 0x80, CHR 0xA9] then
        [CHR 0x5C, CHR ''u'', CHR ''2'', CHR ''0'', CHR ''2'', CHR ''9''] @ quote_bytes 0 (drop 2 cs)
      else c # quote_bytes (utf8_len (c # cs) - 1) cs)"

definition quote :: "string \<Rightarrow> string" where
  "quote s = CHR 0x22 # quote_bytes 0 s @ [CHR 0x22]"



datatype json =
    JNull
  | JBool bool
  | JNumber string
  | JString string
  | JArray "json list"
  | JObject "(string \<times> json) list"

definition is_digit :: "char \<Rightarrow> bool" where
  "is_digit c = (48 \<le> byte c \<and> byte c \<le> 57)"

definition is_hex :: "char \<Rightarrow> bool" where
  "is_hex c = (is_digit c \<or> (65 \<le> byte c \<and> byte c \<le> 70) \<or> (97 \<le> byte c \<and> byte c \<le> 102))"

definition is_space :: "char \<Rightarrow> bool" where
  "is_space c = (c = CHR '' '' \<or> c = CHR 0x09 \<or> c = CHR 0x0D \<or> c = CHR 0x0A)"

fun scan_string :: "string \<Rightarrow> (string \<times> string) option" where
  "scan_string [] = None"
| "scan_string (c # cs) =
     (if c = CHR 0x22 then Some ([], cs)
      else if c = CHR 0x5C then
        (case cs of
           [] \<Rightarrow> None
         | e # cs' \<Rightarrow>
             if e \<in> set ''bfnrt/'' \<or> e = CHR 0x5C \<or> e = CHR 0x22 then
               map_option (\<lambda>(raw, r). (c # e # raw, r)) (scan_string cs')
             else if e = CHR ''u'' \<and> 4 \<le> length cs' \<and> list_all is_hex (take 4 cs') then
               map_option (\<lambda>(raw, r). (c # e # take 4 cs' @ raw, r)) (scan_string (drop 4 cs'))
             else None)
      else if byte c < 32 then None
      else map_option (\<lambda>(raw, r). (c # raw, r)) (scan_string cs))"

definition scan_digits1 :: "string \<Rightarrow> (string \<times> string) option" where
  "scan_digits1 s = (if takeWhile is_digit s = [] then None
                      else Some (takeWhile is_digit s, dropWhile is_digit s))"

definition scan_int_part :: "string \<Rightarrow> (string \<times> string) option" where
  "scan_int_part s =
     (case s of
        [] \<Rightarrow> None
      | c # cs \<Rightarrow>
          if c = CHR ''0'' then Some ([c], cs)
          else if is_digit c then Some (c # takeWhile is_digit cs, dropWhile is_digit cs)
          else None)"

definition scan_frac :: "string \<Rightarrow> (string \<times> string) option" where
  "scan_frac s =
     (case s of
        [] \<Rightarrow> Some ([], s)
      | c # cs \<Rightarrow>
          if c = CHR ''.'' then map_option (\<lambda>(ds, r). (c # ds, r)) (scan_digits1 cs)
          else Some ([], s))"

definition scan_exp :: "string \<Rightarrow> (string \<times> string) option" where
  "scan_exp s =
     (case s of
        [] \<Rightarrow> Some ([], s)
      | c # cs \<Rightarrow>
          if c = CHR ''e'' \<or> c = CHR ''E'' then
            (case cs of
               [] \<Rightarrow> None
             | x # xs \<Rightarrow>
                 if x = CHR ''+'' \<or> x = CHR ''-'' then
                   map_option (\<lambda>(ds, r). (c # x # ds, r)) (scan_digits1 xs)
                 else map_option (\<lambda>(ds, r). (c # ds, r)) (scan_digits1 cs))
          else Some ([], s))"

definition scan_number :: "string \<Rightarrow> (string \<times> string) option" where
  "scan_number s =
     (let sgn = (if take 1 s = ''-'' then ''-'' else '''');
          s0 = drop (length sgn) s
      in case scan_int_part s0 of
           None \<Rightarrow> None
         | Some (ip, s1) \<Rightarrow>
             (case scan_frac s1 of
                None \<Rightarrow> None
              | Some (fr, s2) \<Rightarrow>
                  (case scan_exp s2 of
                     None \<Rightarrow> None
                   | Some (ex, s3) \<Rightarrow> Some (sgn @ ip @ fr @ ex, s3))))"

definition scan_scalar :: "string \<Rightarrow> (json \<times> string) option" where
  "scan_scalar s =
     (if take 1 s = [CHR 0x22] then map_option (\<lambda>(raw, r). (JString raw, r)) (scan_string (drop 1 s))
      else if take 1 s = ''-'' \<or> list_all is_digit (take 1 s) \<and> s \<noteq> [] then
        map_option (\<lambda>(lit, r). (JNumber lit, r)) (scan_number s)
      else if take 4 s = ''true'' then Some (JBool True, drop 4 s)
      else if take 5 s = ''false'' then Some (JBool False, drop 5 s)
      else if take 4 s = ''null'' then Some (JNull, drop 4 s)
      else None)"

definition scan_key :: "string \<Rightarrow> (string \<times> string) option" where
  "scan_key s =
     (case dropWhile is_space s of
        [] \<Rightarrow> None
      | q # r0 \<Rightarrow>
          if q \<noteq> CHR 0x22 then None
          else
            (case scan_string r0 of
               None \<Rightarrow> None
             | Some (k, r1) \<Rightarrow>
                 (case dropWhile is_space r1 of
                    [] \<Rightarrow> None
                  | col # r2 \<Rightarrow> if col = CHR '':'' then Some (k, r2) else None)))"

definition scan_sep :: "char \<Rightarrow> string \<Rightarrow> (bool \<times> string) option" where
  "scan_sep close s =
     (case dropWhile is_space s of
        [] \<Rightarrow> None
      | x # r \<Rightarrow>
          if x = CHR '','' then Some (True, r)
          else if x = close then Some (False, r)
          else None)"

function (sequential) parse_val :: "nat \<Rightarrow> int \<Rightarrow> string \<Rightarrow> (json \<times> string) option"
  and parse_elems :: "nat \<Rightarrow> int \<Rightarrow> json list \<Rightarrow> string \<Rightarrow> (json \<times> string) option"
  and parse_members :: "nat \<Rightarrow> int \<Rightarrow> (string \<times> json) list \<Rightarrow> string \<Rightarrow> (json \<times> string) option"
where
  "parse_val 0 d s = None"
| "parse_val (Suc f) d s =
     (let t = dropWhile is_space s
      in if take 1 t = ''{'' then
           (if d \<le> 0 then None
            else if take 1 (dropWhile is_space (drop 1 t)) = ''}''
              then Some (JObject [], drop 1 (dropWhile is_space (drop 1 t)))
            else parse_members f (d - 1) [] (drop 1 t))
         else if take 1 t = ''['' then
           (if d \<le> 0 then None
            else if take 1 (dropWhile is_space (drop 1 t)) = '']''
              then Some (JArray [], drop 1 (dropWhile is_space (drop 1 t)))
            else parse_elems f (d - 1) [] (drop 1 t))
         else scan_scalar t)"
| "parse_elems 0 d acc s = None"
| "parse_elems (Suc f) d acc s =
     (case parse_val f d s of
        None \<Rightarrow> None
      | Some (v, r) \<Rightarrow>
          (case scan_sep (CHR '']'') r of
             None \<Rightarrow> None
           | Some (again, r') \<Rightarrow>
               if again then parse_elems f d (acc @ [v]) r'
               else Some (JArray (acc @ [v]), r')))"
| "parse_members 0 d acc s = None"
| "parse_members (Suc f) d acc s =
     (case scan_key s of
        None \<Rightarrow> None
      | Some (k, r) \<Rightarrow>
          (case parse_val f d r of
             None \<Rightarrow> None
           | Some (v, r') \<Rightarrow>
               (case scan_sep (CHR ''}'') r' of
                  None \<Rightarrow> None
                | Some (again, r'') \<Rightarrow>
                    if again then parse_members f d (acc @ [(k, v)]) r''
                    else Some (JObject (acc @ [(k, v)]), r''))))"
  by pat_completeness auto
termination
  by (relation "measure (\<lambda>x. case x of Inl (f, _) \<Rightarrow> f | Inr (Inl (f, _)) \<Rightarrow> f | Inr (Inr (f, _)) \<Rightarrow> f)") auto

definition maxNestingDepth :: int where
  "maxNestingDepth = 10000"

definition first_value :: "string \<Rightarrow> (json \<times> string) option" where
  "first_value s = parse_val (Suc (Suc (length (s @ s)))) maxNestingDepth s"

definition hex_val :: "char \<Rightarrow> int" where
  "hex_val c = (if is_digit c then byte c - 48
                else if 97 \<le> byte c then byte c - 87 else byte c - 55)"

definition getu4 :: "string \<Rightarrow> int option" where
  "getu4 s =
     (if 6 \<le> length s \<and> take 2 s = [CHR 0x5C, CHR ''u''] \<and> list_all is_hex (take 4 (drop 2 s))
      then Some (foldl (\<lambda>a c. 16 * a + hex_val c) 0 (take 4 (drop 2 s)))
      else None)"

definition utf8_encode :: "int \<Rightarrow> string" where
  "utf8_encode r =
     (if r < 128 then [char_of r]
      else if r < 2048 then [char_of (192 + r div 64), char_of (128 + r mod 64)]
      else if (55296 \<le> r \<and> r < 57344) \<or> 1114111 < r then [CHR 0xEF, CHR 0xBF, CHR 0xBD]
      else if r < 65536 then
        [char_of (224 + r div 4096), char_of (128 + r div 64 mod 64), char_of (128 + r mod 64)]
      else [char_of (240 + r div 262144), char_of (128 + r div 4096 mod 64),
            char_of (128 + r div 64 mod 64), char_of (128 + r mod 64)])"

definition unescape :: "char \<Rightarrow> char" where
  "unescape e =
     (if e = CHR ''b'' then CHR 0x08
      else if e = CHR ''f'' then CHR 0x0C
      else if e = CHR ''n'' then CHR 0x0A
      else if e = CHR ''r'' then CHR 0x0D
      else if e = CHR ''t'' then CHR 0x09
      else e)"

text \<open>
  \<^verbatim>\<open>unquote\<close> on the raw content of a string literal the scanner accepted. The first
  argument counts the continuation bytes of a valid UTF-8 sequence still to be copied.
\<close>

function unquote_bytes :: "nat \<Rightarrow> string \<Rightarrow> string" where
  "unquote_bytes k [] = []"
| "unquote_bytes (Suc k) (c # cs) = c # unquote_bytes k cs"
| "unquote_bytes 0 (c # cs) =
     (if c = CHR 0x5C then
        (case getu4 (c # cs) of
           None \<Rightarrow> unescape (hd cs) # unquote_bytes 0 (tl cs)
         | Some rr \<Rightarrow>
             if 55296 \<le> rr \<and> rr < 57344 then
               (case getu4 (drop 5 cs) of
                  None \<Rightarrow> [CHR 0xEF, CHR 0xBF, CHR 0xBD] @ unquote_bytes 0 (drop 5 cs)
                | Some rr1 \<Rightarrow>
                    if rr < 56320 \<and> 56320 \<le> rr1 \<and> rr1 < 57344 then
                      utf8_encode ((rr - 55296) * 1024 + (rr1 - 56320) + 65536)
                        @ unquote_bytes 0 (drop 11 cs)
                    else [CHR 0xEF, CHR 0xBF, CHR 0xBD] @ unquote_bytes 0 (drop 5 cs))
             else utf8_encode rr @ unquote_bytes 0 (drop 5 cs))
      else if byte c < 128 then c # unquote_bytes 0 cs
      else if utf8_len (c # cs) = 0 then [CHR 0xEF, CHR 0xBF, CHR 0xBD] @ unquote_bytes 0 cs
      else c # unquote_bytes (utf8_len (c # cs) - 1) cs)"
  by pat_completeness auto
termination
  by (relation "measure (\<lambda>(k, s). length s)") auto

definition unquote :: "string \<Rightarrow> string" where
  "unquote raw = unquote_bytes 0 raw"

definition digits_val :: "string \<Rightarrow> int" where
  "digits_val ds = foldl (\<lambda>a c. 10 * a + (byte c - 48)) 0 ds"

text \<open>\<^verbatim>\<open>strconv.ParseInt(lit, 10, 64)\<close> on a JSON number literal.\<close>

definition strconv_ParseInt :: "string \<Rightarrow> int option" where
  "strconv_ParseInt lit =
     (let ds = (if take 1 lit = ''-'' then drop 1 lit else lit);
          n = (if take 1 lit = ''-'' then - digits_val ds else digits_val ds)
      in if ds \<noteq> [] \<and> list_all is_digit ds \<and> in_int64 n then Some n else None)"

text \<open>
  \<^verbatim>\<open>strconv.ParseFloat(lit, 64)\<close> on a JSON number literal, as a decimal, and its
  range error: a literal of magnitude at least \<open>2^1024 - 2^970\<close> rounds to infinity.
\<close>

definition parse_decimal :: "string \<Rightarrow> decimal" where
  "parse_decimal lit =
     (let ng = (take 1 lit = ''-'');
          s0 = (if ng then drop 1 lit else lit);
          ip = takeWhile is_digit s0;
          s1 = dropWhile is_digit s0;
          fr = (if take 1 s1 = ''.'' then takeWhile is_digit (drop 1 s1) else []);
          s2 = (if take 1 s1 = ''.'' then dropWhile is_digit (drop 1 s1) else s1);
          s3 = drop 1 s2;
          ex = (if s2 = [] then 0
                else if take 1 s3 = ''-'' then - digits_val (drop 1 s3)
                else if take 1 s3 = ''+'' then digits_val (drop 1 s3)
                else digits_val s3);
          ds = ip @ fr;
          sig = rev (dropWhile (\<lambda>c. c = CHR ''0'') (rev ds));
          m = digits_val sig
      in if m = 0 then Decimal ng 0 0
         else Decimal ng m (ex - int (length fr) + int (length ds - length sig)))"

definition float64_overflow :: "decimal \<Rightarrow> bool" where
  "float64_overflow d =
     (if 0 \<le> exponent d
      then (2 ^ 1024 - 2 ^ 970 :: int) \<le> mantissa d * 10 ^ nat (exponent d)
      else (2 ^ 1024 - 2 ^ 970 :: int) * 10 ^ nat (- exponent d) \<le> mantissa d)"

text \<open>A Go map keeps one value for a key: a later member replaces an earlier one.\<close>

fun map_store :: "string \<Rightarrow> gvalue \<Rightarrow> (string \<times> gvalue) list \<Rightarrow> (string \<times> gvalue) list" where
  "map_store k v [] = [(k, v)]"
| "map_store k v ((k', v') # m) = (if k = k' then (k, v) # m else (k', v') # map_store k v m)"

text \<open>
  \<^verbatim>\<open>valueInterface\<close>: the \<^verbatim>\<open>interface{}\<close> value of a syntax tree. A number out of the
  range of \<^verbatim>\<open>float64\<close> is stored as \<^verbatim>\<open>nil\<close> and its error is saved: \<open>numbers_ok\<close>
  says that no error was saved.
\<close>

fun to_value :: "json \<Rightarrow> gvalue" where
  "to_value JNull = VNil"
| "to_value (JBool b) = VBool b"
| "to_value (JNumber lit) =
     (if float64_overflow (parse_decimal lit) then VNil else VNumber (parse_decimal lit))"
| "to_value (JString raw) = VString (unquote raw)"
| "to_value (JArray xs) = VSlice (map to_value xs)"
| "to_value (JObject ms) =
     VMap (foldl (\<lambda>m kv. map_store (fst kv) (snd kv) m) []
             (map (\<lambda>kv. (unquote (fst kv), to_value (snd kv))) ms))"

fun numbers_ok :: "json \<Rightarrow> bool" where
  "numbers_ok (JNumber lit) = (\<not> float64_overflow (parse_decimal lit))"
| "numbers_ok (JArray xs) = list_all numbers_ok xs"
| "numbers_ok (JObject ms) = list_all (\<lambda>kv. numbers_ok (snd kv)) ms"
| "numbers_ok _ = True"

text \<open>
  Field names match a key under Unicode simple case folding. For the names
  \<^verbatim>\<open>ts\<close>, \<^verbatim>\<open>v\<close>, \<^verbatim>\<open>s\<close> that is ASCII case and U+017F (long s) for \<^verbatim>\<open>s\<close>.
\<close>

fun fold_key :: "string \<Rightarrow> string" where
  "fold_key [] = []"
| "fold_key [c] = [if 65 \<le> byte c \<and> byte c \<le> 90 then char_of (byte c + 32) else c]"
| "fold_key (c # c' # cs) =
     (if c = CHR 0xC5 \<and> c' = CHR 0xBF then CHR ''s'' # fold_key cs
      else (if 65 \<le> byte c \<and> byte c \<le> 90 then char_of (byte c + 32) else c) # fold_key (c' # cs))"

definition saveError :: "error \<Rightarrow> error option \<times> wirePV \<Rightarrow> error option \<times> wirePV" where
  "saveError e st = (if fst st = None then (Some e, snd st) else st)"

definition store_int :: "(int \<Rightarrow> wirePV \<Rightarrow> wirePV) \<Rightarrow> json \<Rightarrow> error option \<times> wirePV \<Rightarrow> error option \<times> wirePV" where
  "store_int upd v st =
     (case v of
        JNull \<Rightarrow> st
      | JNumber lit \<Rightarrow>
          (case strconv_ParseInt lit of
             Some n \<Rightarrow> (fst st, upd n (snd st))
           | None \<Rightarrow> saveError (JsonError ''cannot unmarshal number into Go struct field of type int'') st)
      | _ \<Rightarrow> saveError (JsonError ''cannot unmarshal value into Go struct field of type int'') st)"

definition store_member :: "error option \<times> wirePV \<Rightarrow> string \<times> json \<Rightarrow> error option \<times> wirePV" where
  "store_member st kv =
     (let key = fold_key (unquote (fst kv)); v = snd kv
      in if key = ''ts'' then store_int (\<lambda>n w. w\<lparr>wTime := n\<rparr>) v st
         else if key = ''v'' then
           (let st' = (fst st, (snd st)\<lparr>wValue := to_value v\<rparr>)
            in if numbers_ok v then st'
               else saveError (JsonError ''cannot unmarshal number into Go value of type float64'') st')
         else if key = ''s'' then store_int (\<lambda>n w. w\<lparr>wState := n\<rparr>) v st
         else saveError (JsonError (''unknown field '' @ unquote (fst kv))) st)"

definition decode_struct :: "json \<Rightarrow> error option \<times> wirePV" where
  "decode_struct j =
     (case j of
        JNull \<Rightarrow> (None, wirePV_zero)
      | JObject ms \<Rightarrow> foldl store_member (None, wirePV_zero) ms
      | _ \<Rightarrow> (Some (JsonError ''cannot unmarshal value into Go value of type mqtt.wirePV''), wirePV_zero))"

function buffer_cap :: "nat \<Rightarrow> nat \<Rightarrow> nat" where
  "buffer_cap c need = (if need \<le> c then c else buffer_cap (2 * c + 512) need)"
  by pat_completeness auto
termination
  by (relation "measure (\<lambda>(c, need). need - c)") auto

definition is_bracketed :: "json \<Rightarrow> bool" where
  "is_bracketed j = (case j of JArray _ \<Rightarrow> True | JObject _ \<Rightarrow> True | _ \<Rightarrow> False)"

definition go_Decoder_Decode :: "string \<Rightarrow> error option \<times> wirePV \<times> string" where
  "go_Decoder_Decode pl =
     (case first_value pl of
        None \<Rightarrow> (Some (JsonError ''syntax error or EOF''), wirePV_zero, [])
      | Some (j, rest) \<Rightarrow>
          (let n = length pl - length rest;
               filled = min (length pl) (buffer_cap 512 (if is_bracketed j then n else n + 1));
               (err, w) = decode_struct j
           in (err, w, take (filled - n) rest)))"

definition go_Unmarshal :: "string \<Rightarrow> error + gvalue" where
  "go_Unmarshal pl =
     (case first_value pl of
        None \<Rightarrow> Inl (JsonError ''syntax error'')
      | Some (j, rest) \<Rightarrow>
          if \<not> list_all is_space rest then Inl (JsonError ''invalid character after top-level value'')
          else if \<not> numbers_ok j then Inl (JsonError ''cannot unmarshal number into Go value of type float64'')
          else Inr (to_value j))"

text \<open>
  \<^verbatim>\<open>json.Marshal\<close> of an \<^verbatim>\<open>interface{}\<close> value. The keys of a map are written in the
  order of their bytes.
\<close>

fun bytes_less :: "string \<Rightarrow> string \<Rightarrow> bool" where
  "bytes_less [] [] = False"
| "bytes_less [] (y # ys) = True"
| "bytes_less (x # xs) [] = False"
| "bytes_less (x # xs) (y # ys) = (byte x < byte y \<or> (byte x = byte y \<and> bytes_less xs ys))"

fun insert_member :: "string \<times> string \<Rightarrow> (string \<times> string) list \<Rightarrow> (string \<times> string) list" where
  "insert_member kv [] = [kv]"
| "insert_member kv (x # xs) =
     (if bytes_less (fst kv) (fst x) then kv # x # xs else x # insert_member kv xs)"

fun join_comma :: "string list \<Rightarrow> string" where
  "join_comma [] = []"
| "join_comma [x] = x"
| "join_comma (x # y # r) = x @ '','' @ join_comma (y # r)"

fun encode_value :: "gvalue \<Rightarrow> string" where
  "encode_value VNil = ''null''"
| "encode_value (VBool b) = (if b then ''true'' else ''false'')"
| "encode_value (VNumber d) = format_float d"
| "encode_value (VString s) = quote s"
| "encode_value (VSlice xs) = ''['' @ join_comma (map encode_value xs) @ '']''"
| "encode_value (VMap ms) =
     ''{'' @ join_comma
       (map (\<lambda>kv. quote (fst kv) @ '':'' @ snd kv)
          (foldr insert_member (map (\<lambda>kv. (fst kv, encode_value (snd kv))) ms) []))
       @ ''}''"
| "encode_value (VUnsupported msg) = []"

fun marshalable :: "gvalue \<Rightarrow> bool" where
  "marshalable (VUnsupported msg) = False"
| "marshalable (VSlice xs) = list_all marshalable xs"
| "marshalable (VMap ms) = list_all (\<lambda>kv. marshalable (snd kv)) ms"
| "marshalable v = True"

text \<open>
  \<^verbatim>\<open>json.Marshal(w)\<close> for the struct: the fields in the order of their declaration,
  under their tags.
\<close>

definition go_Marshal :: "wirePV \<Rightarrow> error + string" where
  \<open>go_Marshal w =
     (if marshalable (wValue w) then
        Inr (''{"ts":'' @ strconv_FormatInt (wTime w) @ '',"v":'' @ encode_value (wValue w)
               @ '',"s":'' @ strconv_FormatInt (wState w) @ ''}'')
      else Inl (JsonError ''json: unsupported value''))\<close>

definition go_json :: json_library where
  "go_json = \<lparr>Marshal = go_Marshal, Decoder_Decode = go_Decoder_Decode, Unmarshal = go_Unmarshal\<rparr>"

subsection \<open>Brokers and handlers for the examples\<close>

text \<open>
  Two brokers on which the theorems are instantiated. The state of a broker is the list
  of the messages it took. \<open>running_broker\<close> refuses what the spec says \<^verbatim>\<open>Publish\<close>
  refuses (a topic that is empty or holds a wildcard, a quality of service above 2) and
  takes every other message; \<open>stopped_broker\<close> fails on every \<^verbatim>\<open>Publish\<close>.
\<close>

definition running_broker :: "PublishMessage list mqtt_library" where
  "running_broker =
     \<lparr>SetTopic = (\<lambda>t. if t = [] \<or> CHR ''#'' \<in> set t \<or> CHR ''+'' \<in> set t
                       then Some (MqttError ''invalid topic name'') else None),
      SetQoS = (\<lambda>q. if q \<le> 2 then None else Some (MqttError ''invalid QoS value'')),
      service_Publish = (\<lambda>pm br. (None, br @ [pm]))\<rparr>"

definition stopped_broker :: "PublishMessage list mqtt_library" where
  "stopped_broker =
     \<lparr>SetTopic = SetTopic running_broker,
      SetQoS = SetQoS running_broker,
      service_Publish = (\<lambda>pm br. (Some (MqttError ''server not running''), br))\<rparr>"

definition server_of :: "'b mqtt_library \<Rightarrow> 'b Server" where
  "server_of lib =
     \<lparr>Addr = '':1883'', AddrTLS = '':8883'', CertFile = ''server.cert'', KeyFile = ''server.key'',
      Authenticator = ''mockSuccess'', server = lib\<rparr>"

text \<open>A last handler that does nothing and returns what \<open>res\<close> says.\<close>

definition terminal :: "('d notification \<Rightarrow> error option) \<Rightarrow> ('d, 'w) LogicLayer" where
  "terminal res =
     \<lparr>Event = (\<lambda>i a k v w. (res (N_Event i a k v), w)),
      NewDevices = (\<lambda>i ds w. (res (N_NewDevices i ds), w)),
      DeleteDevices = (\<lambda>i addrs w. (res (N_DeleteDevices i addrs), w)),
      UpdateDevice = (\<lambda>i a hint w. (res (N_UpdateDevice i a hint), w)),
      ReplaceDevice = (\<lambda>i old new w. (res (N_ReplaceDevice i old new), w)),
      ReaddedDevice = (\<lambda>i addrs w. (res (N_ReaddedDevice i addrs), w))\<rparr>"

definition world0 :: "PublishMessage list world" where
  "world0 = \<lparr>broker = [], logged = [], clock = (\<lambda>n. 1483228800000000000 + int n), ticks = 0\<rparr>"

definition traced0 :: "(PublishMessage list, 'd) traced_world" where
  "traced0 = \<lparr>broker = [], logged = [], clock = (\<lambda>n. 1483228800000000000 + int n), ticks = 0,
               seen = (\<lambda>j. [])\<rparr>"

text \<open>Two receivers: one in front of the running broker, one in front of the stopped one.\<close>

definition receiver0 :: "(PublishMessage list, unit, PublishMessage list world) EventReceiver" where
  "receiver0 = \<lparr>Server = server_of running_broker, Next = terminal (\<lambda>n. None)\<rparr>"

definition receiver_down :: "(PublishMessage list, unit, PublishMessage list world) EventReceiver" where
  "receiver_down =
     \<lparr>Server = server_of stopped_broker,
      Next = terminal (\<lambda>n. Some (MqttError ''next handler failed''))\<rparr>"

section \<open>Theorems\<close>

declare ReadAll_loop.simps [simp del] trim_prefix.simps [simp del] show_nat.simps [simp del]
  buffer_cap.simps [simp del]

subsection \<open>Helper lemmas for the codec\<close>

lemma ReadAll_loop_all: "ReadAll_loop b rest = Inr (b @ rest)"
proof (induction b rest rule: ReadAll_loop.induct)
  case (1 b rest)
  show ?case
  proof (cases "rest = []")
    case True
    then show ?thesis
      by (subst ReadAll_loop.simps) (simp add: bytes_Reader_Read_def)
  next
    case False
    then have "ReadAll_loop b rest = ReadAll_loop (b @ take 512 rest) (drop 512 rest)"
      by (subst ReadAll_loop.simps) (simp add: bytes_Reader_Read_def)
    also have "\<dots> = Inr ((b @ take 512 rest) @ drop 512 rest)"
      using False by (intro "1.IH") (simp_all add: bytes_Reader_Read_def)
    finally show ?thesis
      by simp
  qed
qed

lemma ioutil_ReadAll_bytes_Reader: "ioutil_ReadAll buffered = Inr buffered"
  by (simp add: ioutil_ReadAll_def ReadAll_loop_all)

lemma time_Unix_0: "time_Unix 0 nsec = nsec"
  by (simp add: time_Unix_def)

lemma wireToPV_strict:
  "Decoder_Decode J pl = (None, w, buffered) \<Longrightarrow> strings_TrimSpace buffered = [] \<Longrightarrow>
   wireToPV J now pl =
     Inr \<lparr>Time = (if wTime w = 0 then now else wrap64 (wTime w * 1000000)),
          Value = wValue w, State = wState w\<rparr>"
  by (simp add: wireToPV_def ioutil_ReadAll_bytes_Reader time_Unix_0)

lemma wireToPV_fallback:
  "Decoder_Decode J pl = (err, w, buffered) \<Longrightarrow> err \<noteq> None \<or> strings_TrimSpace buffered \<noteq> [] \<Longrightarrow>
   wireToPV J now pl =
     Inr \<lparr>Time = now,
          Value = (case Unmarshal J pl of Inr v \<Rightarrow> v | Inl e \<Rightarrow> VString pl),
          State = 0\<rparr>"
  by (cases err; cases "Unmarshal J pl")
     (auto simp: wireToPV_def ioutil_ReadAll_bytes_Reader wirePV_zero_def)

lemma go_json_simps:
  "Marshal go_json = go_Marshal" "Decoder_Decode go_json = go_Decoder_Decode"
  "Unmarshal go_json = go_Unmarshal"
  by (simp_all add: go_json_def)

lemma wrap64_id: "in_int64 x \<Longrightarrow> wrap64 x = x"
  by (simp add: wrap64_def in_int64_def)



subsection \<open>The topic of a value change (C1)\<close>

lemma strings_IndexRune_None: "strings_IndexRune s c = None \<longleftrightarrow> c \<notin> set s"
  by (induction s) auto

lemma strings_IndexRune_first:
  "c \<notin> set xs \<Longrightarrow> strings_IndexRune (xs @ c # ys) c = Some (length xs)"
  by (induction xs) auto

lemma case_error_option_id:
  "(case p of (Some err, w) \<Rightarrow> (Some err, w) | (None, w) \<Rightarrow> (None, w)) = p"
  by (cases p) (auto split: option.splits)

lemma publishEvent_no_colon:
  "CHR '':'' \<notin> set address \<Longrightarrow>
   publishEvent J r iface address valueKey val w = (Some (UnexpectedEvent address), w)"
  using strings_IndexRune_None [of address "CHR '':''"]
  by (simp add: publishEvent_def)

lemma publishEvent_colon:
  "strings_IndexRune address (CHR '':'') = Some p \<Longrightarrow>
   publishEvent J r iface address valueKey val w =
     Server_PublishPV J (Server r)
       (''device/status/'' @ take p address @ ''/'' @ drop (Suc p) address @ ''/'' @ valueKey)
       \<lparr>Time = fst (time_Now w), Value = val, State = 0\<rparr>
       (if valueKey = ''INSTALL_TEST'' \<or> strings_HasPrefix valueKey ''PRESS_'' then 2 else 1)
       (\<not> (valueKey = ''INSTALL_TEST'' \<or> strings_HasPrefix valueKey ''PRESS_''))
       (snd (time_Now w))"
  by (simp add: publishEvent_def case_error_option_id deviceStatusTopic_def StateGood_def
      QosAtLeastOnce_def QosExactlyOnce_def split_beta Let_def)

text \<open>
  C1, as amended. An address without a colon gives the error
  \<^verbatim>\<open>Unexpected event from a device\<close> and the world is left as it was: nothing is
  published. An address with a colon is split at its first colon, into \<open>dev\<close> before
  it and \<open>ch\<close> after it (\<open>ch\<close> may hold further colons), and the publication is
  attempted with exactly the topic \<^verbatim>\<open>device/status/dev/ch/p\<close>.
\<close>

theorem publishEvent_topic:
  "(CHR '':'' \<notin> set address \<longrightarrow>
      publishEvent J r iface address p val w = (Some (UnexpectedEvent address), w)) \<and>
   (CHR '':'' \<notin> set dev \<longrightarrow>
      publishEvent J r iface (dev @ CHR '':'' # ch) p val w =
        Server_PublishPV J (Server r) (''device/status/'' @ dev @ ''/'' @ ch @ ''/'' @ p)
          \<lparr>Time = fst (time_Now w), Value = val, State = StateGood\<rparr>
          (if p = ''INSTALL_TEST'' \<or> strings_HasPrefix p ''PRESS_'' then 2 else 1)
          (\<not> (p = ''INSTALL_TEST'' \<or> strings_HasPrefix p ''PRESS_''))
          (snd (time_Now w)))"
proof (intro conjI impI)
  assume "CHR '':'' \<notin> set address"
  then show "publishEvent J r iface address p val w = (Some (UnexpectedEvent address), w)"
    by (rule publishEvent_no_colon)
next
  assume "CHR '':'' \<notin> set dev"
  then have "strings_IndexRune (dev @ CHR '':'' # ch) (CHR '':'') = Some (length dev)"
    by (rule strings_IndexRune_first)
  from publishEvent_colon [OF this, of J r iface p val w]
  show "publishEvent J r iface (dev @ CHR '':'' # ch) p val w =
        Server_PublishPV J (Server r) (''device/status/'' @ dev @ ''/'' @ ch @ ''/'' @ p)
          \<lparr>Time = fst (time_Now w), Value = val, State = StateGood\<rparr>
          (if p = ''INSTALL_TEST'' \<or> strings_HasPrefix p ''PRESS_'' then 2 else 1)
          (\<not> (p = ''INSTALL_TEST'' \<or> strings_HasPrefix p ''PRESS_''))
          (snd (time_Now w))"
    by (simp add: StateGood_def)
qed

theorem publishEvent_topic_witness:
  "publishEvent go_json receiver0 ''BidCos-RF'' ''AABB1234'' ''STATE'' (VBool True) world0
     = (Some (UnexpectedEvent ''AABB1234''), world0) \<and>
   publishEvent go_json receiver0 ''BidCos-RF'' ''AABB1234:3'' ''STATE'' (VBool True) world0
     = Server_PublishPV go_json (Server receiver0) ''device/status/AABB1234/3/STATE''
         \<lparr>Time = fst (time_Now world0), Value = VBool True, State = StateGood\<rparr> 1 True
         (snd (time_Now world0))"
  using publishEvent_topic [of "''AABB1234''" go_json receiver0 "''BidCos-RF''" "''STATE''"
      "VBool True" world0 "''AABB1234''" "''3''"]
  by (simp add: strings_HasPrefix_def)

theorem publishEvent_counterexample:
  "fst (publishEvent go_json receiver0 ''BidCos-RF'' ''AABB1234:3:4'' ''STATE'' (VBool True) world0)
     = None \<and>
   map topic (broker (snd (publishEvent go_json receiver0 ''BidCos-RF'' ''AABB1234:3:4'' ''STATE''
     (VBool True) world0))) = [''device/status/AABB1234/3:4/STATE'']"
  by code_simp

subsection \<open>The publish decision (C2)\<close>

text \<open>
  C2. For an address with a colon the receiver calls \<^verbatim>\<open>PublishPV\<close> with quality of
  service 2 and retain false when the parameter name is \<^verbatim>\<open>INSTALL_TEST\<close> or begins
  with \<^verbatim>\<open>PRESS_\<close>, and with quality of service 1 and retain true for every other
  name. The two arguments are functions of the name alone.
\<close>

theorem publish_decision:
  "strings_IndexRune address (CHR '':'') = Some p \<Longrightarrow>
   publishEvent J r iface address valueKey val w =
     Server_PublishPV J (Server r)
       (deviceStatusTopic @ ''/'' @ take p address @ ''/'' @ drop (p + 1) address @ ''/'' @ valueKey)
       \<lparr>Time = fst (time_Now w), Value = val, State = StateGood\<rparr>
       (if valueKey = ''INSTALL_TEST'' \<or> strings_HasPrefix valueKey ''PRESS_''
        then QosExactlyOnce else QosAtLeastOnce)
       (\<not> (valueKey = ''INSTALL_TEST'' \<or> strings_HasPrefix valueKey ''PRESS_''))
       (snd (time_Now w))"
  using publishEvent_colon [of address p J r iface valueKey val w]
  by (simp add: QosAtLeastOnce_def QosExactlyOnce_def deviceStatusTopic_def StateGood_def)

theorem publish_decision_witness:
  "publishEvent go_json receiver0 ''BidCos-RF'' ''AABB1234:3'' ''PRESS_SHORT'' (VBool True) world0
     = Server_PublishPV go_json (Server receiver0) ''device/status/AABB1234/3/PRESS_SHORT''
         \<lparr>Time = fst (time_Now world0), Value = VBool True, State = StateGood\<rparr> 2 False
         (snd (time_Now world0))"
proof -
  have "strings_IndexRune ''AABB1234:3'' (CHR '':'') = Some 8"
    by simp
  from publish_decision [OF this, of go_json receiver0 "''BidCos-RF''" "''PRESS_SHORT''"
      "VBool True" world0]
  show ?thesis
    by (simp add: strings_HasPrefix_def QosExactlyOnce_def deviceStatusTopic_def)
qed

subsection \<open>Decoding never fails (C3)\<close>

text \<open>
  C3. \<^verbatim>\<open>wireToPV\<close> returns a process value for every payload, whatever the JSON
  library answers: the only error of the source, a failed \<^verbatim>\<open>ReadAll\<close>, cannot come
  from the in-memory reader of the buffered bytes. A payload that the strict decoder and
  \<^verbatim>\<open>json.Unmarshal\<close> both refuse becomes the string value, with the current time and
  status 0.
\<close>

theorem wireToPV_total:
  "(\<exists>pv. wireToPV J now pl = Inr pv) \<and>
   (fst (Decoder_Decode J pl) \<noteq> None \<and> Unmarshal J pl = Inl e \<longrightarrow>
      wireToPV J now pl = Inr \<lparr>Time = now, Value = VString pl, State = 0\<rparr>)"
proof -
  obtain err w buffered where d: "Decoder_Decode J pl = (err, w, buffered)"
    by (cases "Decoder_Decode J pl") auto
  have "\<exists>pv. wireToPV J now pl = Inr pv"
  proof (cases "err = None \<and> strings_TrimSpace buffered = []")
    case True
    with d wireToPV_strict [of J pl w buffered now] show ?thesis
      by auto
  next
    case False
    with d wireToPV_fallback [of J pl err w buffered now] show ?thesis
      by auto
  qed
  moreover have "wireToPV J now pl = Inr \<lparr>Time = now, Value = VString pl, State = 0\<rparr>"
    if "fst (Decoder_Decode J pl) \<noteq> None" "Unmarshal J pl = Inl e"
    using that d wireToPV_fallback [of J pl err w buffered now] by auto
  ultimately show ?thesis
    by blast
qed

theorem wireToPV_total_witness:
  "wireToPV go_json 42 [CHR 0xFF, CHR 0x00, CHR ''{'']
     = Inr \<lparr>Time = 42, Value = VString [CHR 0xFF, CHR 0x00, CHR ''{''], State = 0\<rparr> \<and>
   wireToPV go_json 42 [] = Inr \<lparr>Time = 42, Value = VString [], State = 0\<rparr>"
proof -
  have a: "fst (Decoder_Decode go_json [CHR 0xFF, CHR 0x00, CHR ''{'']) \<noteq> None"
    "Unmarshal go_json [CHR 0xFF, CHR 0x00, CHR ''{''] = Inl (JsonError ''syntax error'')"
    by code_simp+
  have b: "fst (Decoder_Decode go_json []) \<noteq> None"
    "Unmarshal go_json [] = Inl (JsonError ''syntax error'')"
    by code_simp+
  from wireToPV_total [of go_json 42 "[CHR 0xFF, CHR 0x00, CHR ''{'']" "JsonError ''syntax error''"]
    wireToPV_total [of go_json 42 "[]" "JsonError ''syntax error''"] a b
  show ?thesis
    by blast
qed

subsection \<open>The order of the tiers (C4)\<close>

lemma store_member_keeps_error: "fst st \<noteq> None \<Longrightarrow> fst (store_member st kv) \<noteq> None"
  by (auto simp: store_member_def store_int_def saveError_def Let_def
      split: json.splits option.splits)

lemma store_member_unknown:
  "fold_key (unquote (fst kv)) \<notin> {''ts'', ''v'', ''s''} \<Longrightarrow> fst (store_member st kv) \<noteq> None"
  by (simp add: store_member_def saveError_def Let_def)

lemma foldl_store_member_keeps_error:
  "fst st \<noteq> None \<Longrightarrow> fst (foldl store_member st ms) \<noteq> None"
proof (induction ms arbitrary: st)
  case Nil
  then show ?case
    by simp
next
  case (Cons kv ms)
  from Cons.prems have "fst (store_member st kv) \<noteq> None"
    by (rule store_member_keeps_error)
  then have "fst (foldl store_member (store_member st kv) ms) \<noteq> None"
    by (rule Cons.IH)
  then show ?case
    by simp
qed

lemma foldl_store_member_unknown:
  "\<exists>kv\<in>set ms. fold_key (unquote (fst kv)) \<notin> {''ts'', ''v'', ''s''} \<Longrightarrow>
   fst (foldl store_member st ms) \<noteq> None"
proof (induction ms arbitrary: st)
  case Nil
  then show ?case
    by simp
next
  case (Cons kv ms)
  show ?case
  proof (cases "fold_key (unquote (fst kv)) \<in> {''ts'', ''v'', ''s''}")
    case True
    with Cons.prems have "\<exists>kv\<in>set ms. fold_key (unquote (fst kv)) \<notin> {''ts'', ''v'', ''s''}"
      by auto
    then show ?thesis
      by (simp add: Cons.IH)
  next
    case False
    then have "fst (store_member st kv) \<noteq> None"
      by (rule store_member_unknown)
    then show ?thesis
      by (simp add: foldl_store_member_keeps_error)
  qed
qed

lemma go_Decoder_Decode_object:
  "first_value pl = Some (JObject ms, rest) \<Longrightarrow>
   fst (go_Decoder_Decode pl) = fst (foldl store_member (None, wirePV_zero) ms) \<and>
   (\<exists>k. snd (snd (go_Decoder_Decode pl)) = take k rest)"
  by (auto simp: go_Decoder_Decode_def decode_struct_def Let_def split: prod.splits)

lemma trim_prefix_Nil: "trim_prefix encs [] = []"
proof -
  have "find (\<lambda>e. e \<noteq> [] \<and> take (length e) [] = e) encs = None"
    by (induction encs) auto
  then show ?thesis
    by (subst trim_prefix.simps) simp
qed

lemma trim_prefix_spaces: "list_all is_space xs \<Longrightarrow> trim_prefix unicode_spaces xs = []"
proof (induction xs)
  case Nil
  show ?case
    by (rule trim_prefix_Nil)
next
  case (Cons c cs)
  then have c: "c = CHR '' '' \<or> c = CHR 0x09 \<or> c = CHR 0x0D \<or> c = CHR 0x0A"
    by (simp add: is_space_def)
  then have "find (\<lambda>e. e \<noteq> [] \<and> take (length e) (c # cs) = e) unicode_spaces = Some [c]"
    by (elim disjE) (simp_all add: unicode_spaces_def)
  then have "trim_prefix unicode_spaces (c # cs) = trim_prefix unicode_spaces cs"
    by (subst trim_prefix.simps) simp
  with Cons show ?case
    by simp
qed

lemma strings_TrimSpace_spaces: "list_all is_space xs \<Longrightarrow> strings_TrimSpace xs = []"
  by (simp add: strings_TrimSpace_def trim_prefix_spaces trim_prefix_Nil)

lemma go_Unmarshal_trailing:
  assumes "first_value pl = Some (j, rest)" and "strings_TrimSpace (take k rest) \<noteq> []"
  shows "go_Unmarshal pl = Inl (JsonError ''invalid character after top-level value'')"
proof -
  have "\<not> list_all is_space (take k rest)"
    using assms(2) strings_TrimSpace_spaces by blast
  then have "\<not> list_all is_space rest"
    by (metis append_take_drop_id list_all_append)
  with assms(1) show ?thesis
    by (simp add: go_Unmarshal_def)
qed

lemma go_Unmarshal_object:
  "first_value pl = Some (j, rest) \<Longrightarrow> list_all is_space rest \<Longrightarrow> numbers_ok j \<Longrightarrow>
   go_Unmarshal pl = Inr (to_value j)"
  by (simp add: go_Unmarshal_def)

text \<open>
  C4, as amended. The tiers are tried in the order strict, generic, string. For a payload
  that begins with a JSON object:
  \<^item> if the object has a top-level field whose name, compared without regard to case, is
    none of \<^verbatim>\<open>ts\<close>, \<^verbatim>\<open>v\<close>, \<^verbatim>\<open>s\<close>, the strict tier is rejected and the whole payload
    is parsed as a generic JSON value; that value becomes the value of the result when the
    parse succeeds, which it does when only JSON white space follows the object and every
    number fits a \<^verbatim>\<open>float64\<close>; otherwise the payload is the value, as a string;
  \<^item> if the bytes in the decoder's buffer behind the object are not all white space, the
    strict tier is rejected, the generic parse of the whole payload fails too, and the
    payload is the value, as a string.
  In both cases the timestamp is the current time and the status is 0.
\<close>

theorem decode_tiers:
  assumes "first_value pl = Some (JObject ms, rest)"
  shows
    "((\<exists>kv\<in>set ms. fold_key (unquote (fst kv)) \<notin> {''ts'', ''v'', ''s''}) \<longrightarrow>
        wireToPV go_json now pl =
          Inr \<lparr>Time = now,
               Value = (case go_Unmarshal pl of Inr v \<Rightarrow> v | Inl e \<Rightarrow> VString pl),
               State = 0\<rparr> \<and>
        (list_all is_space rest \<and> numbers_ok (JObject ms) \<longrightarrow>
           go_Unmarshal pl = Inr (to_value (JObject ms)))) \<and>
     (strings_TrimSpace (snd (snd (go_Decoder_Decode pl))) \<noteq> [] \<longrightarrow>
        go_Unmarshal pl = Inl (JsonError ''invalid character after top-level value'') \<and>
        wireToPV go_json now pl = Inr \<lparr>Time = now, Value = VString pl, State = 0\<rparr>)"
proof (intro conjI impI)
  obtain err w buffered where d: "Decoder_Decode go_json pl = (err, w, buffered)"
    by (cases "Decoder_Decode go_json pl") auto
  {
    assume "\<exists>kv\<in>set ms. fold_key (unquote (fst kv)) \<notin> {''ts'', ''v'', ''s''}"
    then have "fst (go_Decoder_Decode pl) \<noteq> None"
      using go_Decoder_Decode_object [OF assms] foldl_store_member_unknown by simp
    with d have "err \<noteq> None"
      by (simp add: go_json_simps)
    then show "wireToPV go_json now pl =
        Inr \<lparr>Time = now, Value = (case go_Unmarshal pl of Inr v \<Rightarrow> v | Inl e \<Rightarrow> VString pl),
             State = 0\<rparr>"
      using wireToPV_fallback [OF d, of now] by (simp add: go_json_simps)
  }
  {
    assume "list_all is_space rest \<and> numbers_ok (JObject ms)"
    then show "go_Unmarshal pl = Inr (to_value (JObject ms))"
      using go_Unmarshal_object [OF assms] by blast
  }
  {
    assume t: "strings_TrimSpace (snd (snd (go_Decoder_Decode pl))) \<noteq> []"
    obtain k where "snd (snd (go_Decoder_Decode pl)) = take k rest"
      using go_Decoder_Decode_object [OF assms] by blast
    with t have "strings_TrimSpace (take k rest) \<noteq> []"
      by simp
    with assms show u: "go_Unmarshal pl = Inl (JsonError ''invalid character after top-level value'')"
      by (rule go_Unmarshal_trailing)
    from t d have "strings_TrimSpace buffered \<noteq> []"
      by (simp add: go_json_simps)
    then show "wireToPV go_json now pl = Inr \<lparr>Time = now, Value = VString pl, State = 0\<rparr>"
      using wireToPV_fallback [OF d, of now] u by (simp add: go_json_simps)
  }
qed

theorem decode_tiers_witness:
  \<open>wireToPV go_json 42 ''{"v":1,"unit":2} ''
     = Inr \<lparr>Time = 42,
          Value = VMap [(''v'', VNumber (Decimal False 1 0)), (''unit'', VNumber (Decimal False 2 0))],
          State = 0\<rparr> \<and>
   wireToPV go_json 42 ''{"v":1} 2'' = Inr \<lparr>Time = 42, Value = VString ''{"v":1} 2'', State = 0\<rparr>\<close>
proof -
  let ?p = \<open>''{"v":1,"unit":2} ''\<close>
  let ?ms = "[(''v'', JNumber ''1''), (''unit'', JNumber ''2'')]"
  let ?q = \<open>''{"v":1} 2''\<close>
  have a: "first_value ?p = Some (JObject ?ms, '' '')"
    by code_simp
  have a1: "\<exists>kv\<in>set ?ms. fold_key (unquote (fst kv)) \<notin> {''ts'', ''v'', ''s''}"
    by code_simp
  have a2: "list_all is_space '' '' \<and> numbers_ok (JObject ?ms)"
    by code_simp
  have a3: "to_value (JObject ?ms)
      = VMap [(''v'', VNumber (Decimal False 1 0)), (''unit'', VNumber (Decimal False 2 0))]"
    by code_simp
  have b: "first_value ?q = Some (JObject [(''v'', JNumber ''1'')], '' 2'')"
    by code_simp
  have b1: "strings_TrimSpace (snd (snd (go_Decoder_Decode ?q))) \<noteq> []"
    by code_simp
  from decode_tiers [OF a, of 42] a1 a2
  have "wireToPV go_json 42 ?p =
      Inr \<lparr>Time = 42, Value = (case go_Unmarshal ?p of Inr v \<Rightarrow> v | Inl e \<Rightarrow> VString ?p),
           State = 0\<rparr>"
    and "go_Unmarshal ?p = Inr (to_value (JObject ?ms))"
    by blast+
  then have "wireToPV go_json 42 ?p = Inr \<lparr>Time = 42, Value = to_value (JObject ?ms), State = 0\<rparr>"
    by (simp only: sum.case)
  moreover from decode_tiers [OF b, of 42] b1
  have "wireToPV go_json 42 ?q = Inr \<lparr>Time = 42, Value = VString ?q, State = 0\<rparr>"
    by blast
  ultimately show ?thesis
    by (simp only: a3 simp_thms)
qed

theorem decode_tiers_counterexample:
  \<open>go_Unmarshal ''{"v":true}x'' = Inl (JsonError ''invalid character after top-level value'') \<and>
   wireToPV go_json 42 ''{"v":true}x''
     = Inr \<lparr>Time = 42, Value = VString ''{"v":true}x'', State = 0\<rparr>\<close>
  by code_simp

text \<open>
  The check of the bytes behind the object reads what \<^verbatim>\<open>dec.Buffered()\<close> holds, and the
  decoder fills its buffer in blocks of 512 bytes. An object of 7 bytes, 505 spaces and a
  letter make 513 bytes: the letter is not in the buffer, the strict tier is accepted, and
  the result is the number 1 although the payload as a whole is not valid JSON. With 504
  spaces the letter is seen.
\<close>

lemma strict_tier_beyond_buffer:
  \<open>go_Unmarshal (''{"v":1}'' @ replicate 505 (CHR '' '') @ ''x'')
     = Inl (JsonError ''invalid character after top-level value'') \<and>
   wireToPV go_json 42 (''{"v":1}'' @ replicate 505 (CHR '' '') @ ''x'')
     = Inr \<lparr>Time = 42, Value = VNumber (Decimal False 1 0), State = 0\<rparr>\<close>
proof -
  let ?pl = \<open>''{"v":1}'' @ replicate 505 (CHR '' '') @ ''x''\<close>
  have u: "go_Unmarshal ?pl = Inl (JsonError ''invalid character after top-level value'')"
    by code_simp
  have "go_Decoder_Decode ?pl
      = (None, \<lparr>wTime = 0, wValue = VNumber (Decimal False 1 0), wState = 0\<rparr>,
         replicate 505 (CHR '' ''))"
    by code_simp
  then have d: "Decoder_Decode go_json ?pl
      = (None, \<lparr>wTime = 0, wValue = VNumber (Decimal False 1 0), wState = 0\<rparr>,
         replicate 505 (CHR '' ''))"
    by (simp only: go_json_simps)
  have "list_all is_space (replicate 505 (CHR '' ''))"
    by (simp add: list_all_iff is_space_def)
  then have "strings_TrimSpace (replicate 505 (CHR '' '')) = []"
    by (rule strings_TrimSpace_spaces)
  from wireToPV_strict [OF d this, of 42] u show ?thesis
    by simp
qed

subsection \<open>Timestamp and status (C5)\<close>

text \<open>
  C5 at a timestamp the multiplication cannot hold. The payload carries
  \<^verbatim>\<open>ts = 10000000000000\<close>, a valid \<^verbatim>\<open>int64\<close> number of milliseconds (the year 2286).
  \<^verbatim>\<open>w.Time*1000000\<close> is \<open>10^19\<close>, above \<open>2^63\<close>: it wraps, and the result is
  \<open>- 8446744073709551616\<close> nanoseconds, an instant of the year 1702.
\<close>

theorem wireToPV_timestamp_overflow:
  \<open>wireToPV go_json 42 ''{"ts":10000000000000,"v":1}''
     = Inr \<lparr>Time = - 8446744073709551616, Value = VNumber (Decimal False 1 0), State = 0\<rparr>\<close>
  by code_simp

text \<open>
  The rest of C5, for every JSON library: the status is the one of the strict decode or 0;
  the timestamp is the current time unless the strict decode gave a count of milliseconds
  other than 0, and then it is that count in nanoseconds whenever the product is an
  \<^verbatim>\<open>int64\<close>.
\<close>

lemma wireToPV_timestamp_status:
  assumes "Decoder_Decode J pl = (err, w, buffered)"
  shows "\<exists>pv. wireToPV J now pl = Inr pv \<and>
           State pv = (if err = None \<and> strings_TrimSpace buffered = [] then wState w else 0) \<and>
           Time pv = (if err = None \<and> strings_TrimSpace buffered = [] \<and> wTime w \<noteq> 0
                      then wrap64 (wTime w * 1000000) else now) \<and>
           (in_int64 (wTime w * 1000000) \<longrightarrow> wrap64 (wTime w * 1000000) = wTime w * 1000000)"
proof (cases "err = None \<and> strings_TrimSpace buffered = []")
  case True
  with assms wireToPV_strict [of J pl w buffered now] show ?thesis
    by (auto simp: wrap64_id)
next
  case False
  with assms wireToPV_fallback [of J pl err w buffered now] show ?thesis
    by (auto simp: wrap64_id)
qed

subsection \<open>Encoding and decoding again (C6)\<close>




text \<open>
  What does not come back: a string that is not valid UTF-8 is encoded with the
  replacement rune in place of the offending byte.
\<close>

lemma roundtrip_invalid_utf8:
  \<open>pvToWire go_json \<lparr>Time = 1000000, Value = VString [CHR 0xFF], State = 0\<rparr>
     = Inr (''{"ts":1,"v":"'' @ [CHR 0x5C] @ ''ufffd","s":0}'') \<and>
   wireToPV go_json 42 (''{"ts":1,"v":"'' @ [CHR 0x5C] @ ''ufffd","s":0}'')
     = Inr \<lparr>Time = 1000000, Value = VString [CHR 0xEF, CHR 0xBF, CHR 0xBD], State = 0\<rparr>\<close>
  by code_simp

subsection \<open>What Event returns (C10)\<close>

lemma Server_Publish_seen:
  fixes w :: "('b, 'd, 'z) traced_world_scheme"
  shows "seen (snd (Server_Publish b tp pl q rt w)) = seen w"
  by (auto simp: Server_Publish_def log_write_def Let_def split: option.splits prod.splits)

lemma Server_PublishPV_seen:
  fixes w :: "('b, 'd, 'z) traced_world_scheme"
  shows "seen (snd (Server_PublishPV J b tp pv q rt w)) = seen w"
proof (cases "pvToWire J pv")
  case (Inl err)
  then show ?thesis
    by (simp add: Server_PublishPV_def)
next
  case (Inr pl)
  then have "Server_PublishPV J b tp pv q rt w = Server_Publish b tp pl q rt w"
    by (simp add: Server_PublishPV_def case_error_option_id)
  then show ?thesis
    by (simp add: Server_Publish_seen)
qed

lemma publishEvent_seen:
  fixes w :: "('b, 'd, 'z) traced_world_scheme"
  shows "seen (snd (publishEvent J r iface address valueKey val w)) = seen w"
proof (cases "strings_IndexRune address (CHR '':'')")
  case None
  then show ?thesis
    by (simp add: publishEvent_def)
next
  case (Some p)
  have "seen (snd (time_Now w)) = seen w"
    by (simp add: time_Now_def)
  then show ?thesis
    by (simp add: publishEvent_colon [OF Some] Server_PublishPV_seen)
qed

lemma after_publish_seen:
  fixes w :: "('b, 'd, 'z) traced_world_scheme"
  shows "seen (after_publish J r iface address valueKey val w) = seen w"
  using publishEvent_seen [of J r iface address valueKey val w]
  by (cases "publishEvent J r iface address valueKey val w")
     (auto simp: after_publish_def log_write_def split: option.splits)

text \<open>
  C10. \<^verbatim>\<open>Event\<close> returns what the \<^verbatim>\<open>Event\<close> of the next handler returns. The next
  handler is called with the arguments unchanged, in the world the publication left: with
  one more error line in the log when \<^verbatim>\<open>publishEvent\<close> failed, whatever the failure
  (an address without a colon, a value that cannot be encoded, a topic, a quality of
  service or a broker that refuses), and none otherwise. No error of the publication is
  in the result.
\<close>

theorem Event_returns_next:
  "EventReceiver_Event J r iface address valueKey val w =
     Event (Next r) iface address valueKey val (after_publish J r iface address valueKey val w) \<and>
   (\<forall>err w'. publishEvent J r iface address valueKey val w = (Some err, w') \<longrightarrow>
      after_publish J r iface address valueKey val w = w'\<lparr>logged := logged w' @ [Errorf err]\<rparr>) \<and>
   (\<forall>w'. publishEvent J r iface address valueKey val w = (None, w') \<longrightarrow>
      after_publish J r iface address valueKey val w = w')"
  by (simp add: EventReceiver_Event_def after_publish_def log_write_def)

theorem Event_returns_next_witness:
  "EventReceiver_Event go_json receiver_down ''BidCos-RF'' ''AABB1234'' ''STATE'' (VBool True) world0
     = (Some (MqttError ''next handler failed''),
        world0\<lparr>logged := logged world0 @ [Errorf (UnexpectedEvent ''AABB1234'')]\<rparr>)"
proof -
  have "publishEvent go_json receiver_down ''BidCos-RF'' ''AABB1234'' ''STATE'' (VBool True) world0
      = (Some (UnexpectedEvent ''AABB1234''), world0)"
    by (rule publishEvent_no_colon) simp
  with Event_returns_next [of go_json receiver_down "''BidCos-RF''" "''AABB1234''" "''STATE''"
      "VBool True" world0]
  show ?thesis
    by (simp add: receiver_down_def terminal_def)
qed

subsection \<open>Forwarding along a chain (C7)\<close>

lemma deliver_EventReceiver:
  fixes w :: "('b, 'd, 'z) traced_world_scheme"
  shows "\<exists>w'. deliver (EventReceiver_LogicLayer J r) n w = deliver (Next r) n w' \<and> seen w' = seen w"
proof (cases n)
  case (N_Event i a k v)
  have "deliver (EventReceiver_LogicLayer J r) n w = deliver (Next r) n (after_publish J r i a k v w)"
    by (simp add: N_Event EventReceiver_LogicLayer_def EventReceiver_Event_def after_publish_def)
  then show ?thesis
    using after_publish_seen [of J r i a k v w] by blast
qed (auto simp: EventReceiver_LogicLayer_def EventReceiver_NewDevices_def
      EventReceiver_DeleteDevices_def EventReceiver_UpdateDevice_def
      EventReceiver_ReplaceDevice_def EventReceiver_ReaddedDevice_def)

lemma deliver_probe: "deliver (probe j h) n w = deliver h n (record_call j n w)"
  by (cases n) (simp_all add: probe_def)

lemma seen_record_call: "seen (record_call j n w) = (seen w)(j := seen w j @ [n])"
  by (simp add: record_call_def)

lemma deliver_chain_seen:
  fixes w :: "('b, 'd, 'z) traced_world_scheme"
  assumes final: "\<And>n (w :: ('b, 'd, 'z) traced_world_scheme). seen (snd (deliver final n w)) = seen w"
  shows "seen (snd (deliver (chain J j0 srvs final) n w)) =
           (\<lambda>j. if j0 \<le> j \<and> j \<le> j0 + length srvs then seen w j @ [n] else seen w j)"
proof (induction srvs arbitrary: j0 w)
  case Nil
  show ?case
    by (auto simp: deliver_probe final seen_record_call fun_eq_iff)
next
  case (Cons srv rest)
  let ?r = "\<lparr>Server = srv, Next = chain J (Suc j0) rest final\<rparr>"
  obtain w' where w': "deliver (EventReceiver_LogicLayer J ?r) n (record_call j0 n w)
        = deliver (chain J (Suc j0) rest final) n w'"
      "seen w' = seen (record_call j0 n w)"
    using deliver_EventReceiver [of J ?r n "record_call j0 n w"] by auto
  have "seen (snd (deliver (chain J j0 (srv # rest) final) n w))
      = seen (snd (deliver (chain J (Suc j0) rest final) n w'))"
    by (simp add: deliver_probe w'(1))
  also have "\<dots> = (\<lambda>j. if Suc j0 \<le> j \<and> j \<le> Suc j0 + length rest then seen w' j @ [n] else seen w' j)"
    by (rule Cons.IH)
  also have "\<dots> = (\<lambda>j. if j0 \<le> j \<and> j \<le> j0 + length (srv # rest) then seen w j @ [n] else seen w j)"
    by (auto simp: w'(2) seen_record_call fun_eq_iff)
  finally show ?case .
qed

text \<open>
  C7. A chain of \<open>K\<close> receivers in front of a last handler is fed a sequence of
  notifications of any of the six kinds. Every handler of the chain, the receivers at
  the positions \<open>0\<close> to \<open>K - 1\<close> and the last handler at \<open>K\<close>, is called with
  exactly these notifications, arguments unchanged, in the order they were fed: the calls
  recorded at its position are the ones recorded before, followed by the sequence. This
  holds for every JSON library and every broker of every receiver, so also when each
  publication fails. The hypothesis on the last handler is that it leaves the record of
  the calls alone.
\<close>

theorem chain_forwarding:
  fixes w :: "('b, 'd, 'z) traced_world_scheme"
  assumes "\<And>n (w :: ('b, 'd, 'z) traced_world_scheme). seen (snd (deliver final n w)) = seen w"
    and "j \<le> length srvs"
  shows "seen (snd (feed (chain J 0 srvs final) ns w)) j = seen w j @ ns"
proof -
  have "seen (snd (feed (chain J 0 srvs final) ns w)) =
          (\<lambda>j. if j \<le> length srvs then seen w j @ ns else seen w j)"
  proof (induction ns arbitrary: w)
    case Nil
    show ?case
      by auto
  next
    case (Cons n ns)
    obtain e w' where d: "deliver (chain J 0 srvs final) n w = (e, w')"
      by (cases "deliver (chain J 0 srvs final) n w") auto
    have s: "seen w' = (\<lambda>j. if j \<le> length srvs then seen w j @ [n] else seen w j)"
      using deliver_chain_seen [of final J 0 srvs n w, OF assms(1)] d by simp
    have "seen (snd (feed (chain J 0 srvs final) (n # ns) w))
        = seen (snd (feed (chain J 0 srvs final) ns w'))"
      by (simp add: d split: prod.splits)
    also have "\<dots> = (\<lambda>j. if j \<le> length srvs then seen w' j @ ns else seen w' j)"
      by (rule Cons.IH)
    finally show ?case
      by (auto simp: s fun_eq_iff)
  qed
  with assms(2) show ?thesis
    by simp
qed

theorem chain_forwarding_witness:
  "seen (snd (feed
      (chain go_json 0 [server_of stopped_broker, server_of stopped_broker] (terminal (\<lambda>n. None)))
      [N_Event ''BidCos-RF'' ''AABB1234'' ''STATE'' (VBool True),
       N_UpdateDevice ''BidCos-RF'' ''AABB1234:3'' 0,
       N_Event ''BidCos-RF'' ''AABB1234:3'' ''LEVEL'' (VUnsupported ''NaN'')]
      (traced0 :: (PublishMessage list, unit) traced_world))) 1
   = [N_Event ''BidCos-RF'' ''AABB1234'' ''STATE'' (VBool True),
      N_UpdateDevice ''BidCos-RF'' ''AABB1234:3'' 0,
      N_Event ''BidCos-RF'' ''AABB1234:3'' ''LEVEL'' (VUnsupported ''NaN'')]"
proof -
  have t: "seen (snd (deliver (terminal (\<lambda>n. None)) n w)) = seen w"
    for n :: "unit notification" and w :: "(PublishMessage list, unit) traced_world"
    by (cases n) (simp_all add: terminal_def)
  have l: "1 \<le> length [server_of stopped_broker, server_of stopped_broker]"
    by simp
  have z: "seen (traced0 :: (PublishMessage list, unit) traced_world) 1 = []"
    by (simp add: traced0_def)
  show ?thesis
    using chain_forwarding [where final = "terminal (\<lambda>n. None)" and j = 1 and J = go_json
        and w = "traced0 :: (PublishMessage list, unit) traced_world", OF t l]
    by (simp only: z append_Nil)
qed

end
